theory Spec2Isabelle
  imports Complex_Main
begin

section \<open>Python values\<close>

text \<open>
  The scoring core of \<open>langraph_1.py\<close> works on loosely typed Python values: dictionaries
  read from JSON, floats, strings. This section fixes the value model.

  \<^item> A Python \<open>str\<close> is a list of Unicode code points (\<open>pystr\<close>), so that \<open>len\<close>, the
    regular-expression classes and \<open>strip\<close> count what Python counts. \<open>py ''abc''\<close> is
    the string with the code points of the ASCII literal.
  \<^item> A Python \<open>float\<close> is modelled by the rational number it denotes, or one of the three
    special values. Arithmetic on floats is exact rational arithmetic here: the binary
    rounding of IEEE doubles is not modelled.
  \<^item> A \<open>dict\<close> is an association list with distinct keys in insertion order; a key is
    looked up with \<open>map_of\<close>.
\<close>

type_synonym pystr = "nat list"

definition py :: "string \<Rightarrow> pystr" where
  "py s = map of_char s"

datatype pyfloat = Fin rat | PosInf | NegInf | NaN

datatype pyval =
    PNone
  | PBool bool
  | PInt int
  | PFloat pyfloat
  | PStr pystr
  | PList "pyval list"
  | PDict "(pystr \<times> pyval) list"

type_synonym pydict = "(pystr \<times> pyval) list"

datatype py_error =
    TypeError | ValueError | OverflowError | KeyError | AttributeError
  | JSONDecodeError | RecursionError

subsection \<open>Whitespace, \<open>strip\<close> and decimal printing\<close>

definition is_space :: "nat \<Rightarrow> bool" where
  \<comment> \<open>\<open>str.isspace\<close> for one code point; also the class \<open>\s\<close> of \<open>re\<close> on \<open>str\<close> patterns\<close>
  "is_space c \<longleftrightarrow>
     (9 \<le> c \<and> c \<le> 13) \<or> (28 \<le> c \<and> c \<le> 32) \<or> c = 133 \<or> c = 160 \<or> c = 5760
     \<or> (8192 \<le> c \<and> c \<le> 8202) \<or> c = 8232 \<or> c = 8233 \<or> c = 8239 \<or> c = 8287
     \<or> c = 12288"

definition strip :: "pystr \<Rightarrow> pystr" where
  "strip s = rev (dropWhile is_space (rev (dropWhile is_space s)))"

definition is_digit :: "nat \<Rightarrow> bool" where
  "is_digit c \<longleftrightarrow> 48 \<le> c \<and> c \<le> 57"

function str_nat :: "nat \<Rightarrow> pystr" where
  "str_nat n = (if n < 10 then [48 + n] else str_nat (n div 10) @ [48 + n mod 10])"
  by pat_completeness auto
termination
  by (relation "measure id") auto

definition str_int :: "int \<Rightarrow> pystr" where
  \<comment> \<open>\<open>str(i)\<close> for an \<open>int\<close>\<close>
  "str_int i = (if i < 0 then 45 # str_nat (nat (- i)) else str_nat (nat i))"

definition py_int :: "rat \<Rightarrow> int" where
  \<comment> \<open>\<open>int(x)\<close> for a finite float: truncation towards zero\<close>
  "py_int q = (if 0 \<le> q then \<lfloor>q\<rfloor> else \<lceil>q\<rceil>)"

subsection \<open>\<open>float(x)\<close>\<close>

definition float_overflow :: rat where
  \<comment> \<open>the least magnitude that no finite double represents after rounding\<close>
  "float_overflow = 2 ^ 1024 - 2 ^ 970"

definition mk_float :: "rat \<Rightarrow> pyfloat" where
  \<comment> \<open>the float a decimal literal denotes: out of range gives an infinity\<close>
  "mk_float q =
     (if float_overflow \<le> q then PosInf
      else if q \<le> - float_overflow then NegInf
      else Fin q)"

fun digitpart :: "nat \<Rightarrow> nat \<Rightarrow> pystr \<Rightarrow> nat \<times> nat \<times> pystr" where
  \<comment> \<open>\<open>digit (["_"] digit)*\<close>: the value read so far, the number of digits, the rest\<close>
  "digitpart v k [] = (v, k, [])"
| "digitpart v k (c # cs) =
     (if is_digit c then digitpart (10 * v + (c - 48)) (Suc k) cs
      else if c = 95 \<and> 0 < k \<and> (case cs of [] \<Rightarrow> False | d # _ \<Rightarrow> is_digit d)
        then digitpart v k cs
      else (v, k, c # cs))"

definition ascii_lower :: "nat \<Rightarrow> nat" where
  "ascii_lower c = (if 65 \<le> c \<and> c \<le> 90 then c + 32 else c)"

definition pow10 :: "int \<Rightarrow> rat" where
  "pow10 e = (if 0 \<le> e then 10 ^ nat e else 1 / 10 ^ nat (- e))"

definition exponent_part :: "pystr \<Rightarrow> int option" where
  \<comment> \<open>\<open>[("e" | "E") [sign] digitpart]\<close> up to the end of the string\<close>
  "exponent_part s =
     (case s of
        [] \<Rightarrow> Some 0
      | c # r \<Rightarrow>
          if c = 101 \<or> c = 69 then
            (let (neg, r') = (case r of
                                [] \<Rightarrow> (False, r)
                              | x # t \<Rightarrow> if x = 45 then (True, t)
                                         else if x = 43 then (False, t) else (False, r));
                 (v, k, rest) = digitpart 0 0 r'
             in if 0 < k \<and> rest = [] then Some (if neg then - int v else int v) else None)
          else None)"

definition float_space :: "nat \<Rightarrow> bool" where
  \<comment> \<open>the white space \<open>float\<close> removes around a number: as \<open>is_space\<close>, but without
      the four ASCII separators 28 to 31\<close>
  "float_space c \<longleftrightarrow> is_space c \<and> \<not> (28 \<le> c \<and> c \<le> 31)"

definition float_of_str :: "pystr \<Rightarrow> pyfloat option" where
  \<comment> \<open>\<open>float(s)\<close> for a \<open>str\<close>, \<open>None\<close> where Python raises \<open>ValueError\<close>. Only the
      ASCII digits are read as digits: a number written with other decimal digits of
      Unicode, which Python accepts, is refused here.\<close>
  "float_of_str s =
     (let t = rev (dropWhile float_space (rev (dropWhile float_space s)));
          (neg, r) = (case t of
                        [] \<Rightarrow> (False, t)
                      | x # u \<Rightarrow> if x = 45 then (True, u)
                                 else if x = 43 then (False, u) else (False, t));
          l = map ascii_lower r
      in if l = py ''inf'' \<or> l = py ''infinity'' then Some (if neg then NegInf else PosInf)
         else if l = py ''nan'' then Some NaN
         else
           (let (iv, ik, r1) = digitpart 0 0 r;
                (fv, fk, r2) = (case r1 of
                                  [] \<Rightarrow> (0, 0, r1)
                                | d # u \<Rightarrow> if d = 46 then digitpart 0 0 u else (0, 0, r1))
            in if ik = 0 \<and> fk = 0 then None
               else
                 (case exponent_part r2 of
                    None \<Rightarrow> None
                  | Some e \<Rightarrow>
                      (let m = (of_nat iv + of_nat fv / 10 ^ fk) * pow10 e
                       in Some (mk_float (if neg then - m else m))))))"

fun py_float :: "pyval \<Rightarrow> py_error + pyfloat" where
  "py_float PNone = Inl TypeError"
| "py_float (PBool b) = Inr (Fin (if b then 1 else 0))"
| "py_float (PInt i) =
     (if float_overflow \<le> \<bar>of_int i\<bar> then Inl OverflowError else Inr (Fin (of_int i)))"
| "py_float (PFloat f) = Inr f"
| "py_float (PStr s) = (case float_of_str s of None \<Rightarrow> Inl ValueError | Some f \<Rightarrow> Inr f)"
| "py_float (PList xs) = Inl TypeError"
| "py_float (PDict d) = Inl TypeError"

subsection \<open>\<open>round(x, n)\<close>\<close>

definition round_half_even :: "rat \<Rightarrow> int" where
  "round_half_even q =
     (let f = \<lfloor>q\<rfloor>; d = q - of_int f
      in if d < 1 / 2 then f else if 1 / 2 < d then f + 1 else if even f then f else f + 1)"

definition py_round :: "nat \<Rightarrow> rat \<Rightarrow> rat" where
  \<comment> \<open>Python's \<open>round(x, n)\<close>: the nearest multiple of \<open>10^-n\<close> to the value of \<open>x\<close>,
      a tie going to the even last digit\<close>
  "py_round n x = of_int (round_half_even (x * 10 ^ n)) / 10 ^ n"

section \<open>The score aggregator\<close>

text \<open>
  \<open>BrandTrustScorer._calculate_final_score\<close> (the second, live definition of the class).
  A component result is whatever an \<open>analyze_*\<close> method returned: any Python value.
\<close>

subsection \<open>Membership and indexing\<close>

fun starts_with :: "pystr \<Rightarrow> pystr \<Rightarrow> bool" where
  \<comment> \<open>\<open>s.startswith(p)\<close>\<close>
  "starts_with s [] = True"
| "starts_with [] (p # ps) = False"
| "starts_with (x # xs) (p # ps) = (x = p \<and> starts_with xs ps)"

fun contains :: "pystr \<Rightarrow> pystr \<Rightarrow> bool" where
  \<comment> \<open>\<open>p in s\<close> for two strings\<close>
  "contains [] p = (p = [])"
| "contains (x # xs) p = (starts_with (x # xs) p \<or> contains xs p)"

fun py_in :: "pystr \<Rightarrow> pyval \<Rightarrow> py_error + bool" where
  \<comment> \<open>\<open>k in v\<close> for a string \<open>k\<close>: a key of a dict, an element of a list, a substring of
      a string; the other values are not iterable\<close>
  "py_in k (PDict d) = Inr (k \<in> set (map fst d))"
| "py_in k (PList xs) = Inr (PStr k \<in> set xs)"
| "py_in k (PStr s) = Inr (contains s k)"
| "py_in k PNone = Inl TypeError"
| "py_in k (PBool b) = Inl TypeError"
| "py_in k (PInt i) = Inl TypeError"
| "py_in k (PFloat f) = Inl TypeError"

definition lookup :: "(pystr \<times> 'a) list \<Rightarrow> pystr \<Rightarrow> py_error + 'a" where
  \<comment> \<open>\<open>d[k]\<close> for a dict\<close>
  "lookup d k = (case map_of d k of None \<Rightarrow> Inl KeyError | Some v \<Rightarrow> Inr v)"

fun py_getitem :: "pyval \<Rightarrow> pystr \<Rightarrow> py_error + pyval" where
  \<comment> \<open>\<open>v[k]\<close> for a string \<open>k\<close>: only a dict can be indexed by a string\<close>
  "py_getitem (PDict d) k = lookup d k"
| "py_getitem v k = Inl TypeError"

subsection \<open>The aggregation\<close>

record breakdown_entry =
  score :: rat
  weight :: pystr
  contribution :: rat

record trust_score =
  final_score :: rat
  component_breakdown :: "(pystr \<times> breakdown_entry) list"
  score_interpretation :: pystr
  component_results :: "(pystr \<times> pyval) list"

definition weights :: "(pystr \<times> rat) list" where
  \<comment> \<open>the table of the live \<open>calculate_trust_score\<close>\<close>
  "weights =
     [(py ''ratings'', 55 / 100),
      (py ''business_legitimacy'', 10 / 100),
      (py ''review_sentiment'', 20 / 100),
      (py ''social_media'', 10 / 100),
      (py ''customer_support'', 5 / 100)]"

definition weights_shadowed :: "(pystr \<times> rat) list" where
  \<comment> \<open>the table of the first \<open>BrandTrustScorer\<close>, which the second class definition replaces\<close>
  "weights_shadowed =
     [(py ''ratings'', 50 / 100),
      (py ''business_legitimacy'', 15 / 100),
      (py ''review_sentiment'', 15 / 100),
      (py ''social_media'', 10 / 100),
      (py ''customer_support'', 10 / 100)]"

definition clamp :: "pyfloat \<Rightarrow> rat" where
  \<comment> \<open>\<open>max(0.0, min(10.0, x))\<close>. Python's \<open>min(a, b)\<close> is \<open>b\<close> if \<open>b < a\<close> and \<open>a\<close>
      otherwise, \<open>max(a, b)\<close> is \<open>b\<close> if \<open>b > a\<close>; every comparison with \<open>nan\<close> is false,
      so \<open>nan\<close> gives \<open>10.0\<close>.\<close>
  "clamp x =
     (case x of
        Fin q \<Rightarrow> (let m = (if q < 10 then q else 10) in if 0 < m then m else 0)
      | PosInf \<Rightarrow> 10
      | NegInf \<Rightarrow> 0
      | NaN \<Rightarrow> 10)"

definition clamped_float :: "pyval \<Rightarrow> py_error + rat" where
  \<comment> \<open>\<open>max(0.0, min(10.0, float(v)))\<close>\<close>
  "clamped_float v = (case py_float v of Inl e \<Rightarrow> Inl e | Inr f \<Rightarrow> Inr (clamp f))"

definition score_at :: "pyval \<Rightarrow> pystr \<Rightarrow> py_error + rat" where
  \<comment> \<open>\<open>max(0.0, min(10.0, float(component_result[key])))\<close>\<close>
  "score_at component_result key =
     (case py_getitem component_result key of Inl e \<Rightarrow> Inl e | Inr v \<Rightarrow> clamped_float v)"

definition component_score :: "pyval \<Rightarrow> pystr \<Rightarrow> py_error + rat" where
  \<comment> \<open>the body of the extraction loop\<close>
  "component_score component_result component =
     (case py_in (py ''error'') component_result of
        Inl e \<Rightarrow> Inl e
      | Inr True \<Rightarrow> Inr 5
      | Inr False \<Rightarrow>
          (case py_in (component @ py ''_score'') component_result of
             Inl e \<Rightarrow> Inl e
           | Inr True \<Rightarrow> score_at component_result (component @ py ''_score'')
           | Inr False \<Rightarrow>
               (case py_in (py ''score'') component_result of
                  Inl e \<Rightarrow> Inl e
                | Inr True \<Rightarrow> score_at component_result (py ''score'')
                | Inr False \<Rightarrow> Inr 5)))"

definition get_result :: "(pystr \<times> pyval) list \<Rightarrow> pystr \<Rightarrow> pyval" where
  \<comment> \<open>\<open>component_scores.get(component, {})\<close>\<close>
  "get_result component_scores component =
     (case map_of component_scores component of None \<Rightarrow> PDict [] | Some r \<Rightarrow> r)"

fun extract_scores ::
  "(pystr \<times> pyval) list \<Rightarrow> (pystr \<times> rat) list \<Rightarrow> py_error + (pystr \<times> rat) list" where
  "extract_scores component_scores [] = Inr []"
| "extract_scores component_scores ((component, w) # ws) =
     (case component_score (get_result component_scores component) component of
        Inl e \<Rightarrow> Inl e
      | Inr s \<Rightarrow>
          (case extract_scores component_scores ws of
             Inl e \<Rightarrow> Inl e
           | Inr scores \<Rightarrow> Inr ((component, s) # scores)))"

fun weighted_sum :: "(pystr \<times> rat) list \<Rightarrow> (pystr \<times> rat) list \<Rightarrow> py_error + rat" where
  \<comment> \<open>\<open>sum(scores[component] * weights[component] for component in weights.keys())\<close>\<close>
  "weighted_sum scores [] = Inr 0"
| "weighted_sum scores ((component, w) # ws) =
     (case lookup scores component of
        Inl e \<Rightarrow> Inl e
      | Inr s \<Rightarrow>
          (case weighted_sum scores ws of
             Inl e \<Rightarrow> Inl e
           | Inr t \<Rightarrow> Inr (s * w + t)))"

definition interpret_score :: "rat \<Rightarrow> pystr" where
  "interpret_score s =
     (if 85 / 10 \<le> s then py ''Excellent - Strong buy confidence''
      else if 7 \<le> s then py ''Good - Generally trustworthy''
      else if 55 / 10 \<le> s then py ''Average - Proceed with research''
      else if 4 \<le> s then py ''Below Average - Significant concerns''
      else py ''Poor - High risk, consider alternatives'')"

definition percent :: "rat \<Rightarrow> pystr" where
  \<comment> \<open>\<open>f"{int(w*100)}%"\<close>\<close>
  "percent w = str_int (py_int (w * 100)) @ py ''%''"

fun breakdown ::
  "(pystr \<times> rat) list \<Rightarrow> (pystr \<times> rat) list \<Rightarrow> py_error + (pystr \<times> breakdown_entry) list" where
  "breakdown scores [] = Inr []"
| "breakdown scores ((component, w) # ws) =
     (case lookup scores component of
        Inl e \<Rightarrow> Inl e
      | Inr s \<Rightarrow>
          (case breakdown scores ws of
             Inl e \<Rightarrow> Inl e
           | Inr es \<Rightarrow>
               Inr ((component,
                     \<lparr>score = s, weight = percent w, contribution = py_round 2 (s * w)\<rparr>) # es)))"

definition calculate_final_score ::
  "(pystr \<times> pyval) list \<Rightarrow> (pystr \<times> rat) list \<Rightarrow> py_error + trust_score" where
  "calculate_final_score component_scores ws =
     (case extract_scores component_scores ws of
        Inl e \<Rightarrow> Inl e
      | Inr scores \<Rightarrow>
          (case weighted_sum scores ws of
             Inl e \<Rightarrow> Inl e
           | Inr final \<Rightarrow>
               (case breakdown scores ws of
                  Inl e \<Rightarrow> Inl e
                | Inr bd \<Rightarrow>
                    Inr \<lparr>final_score = py_round 1 final,
                         component_breakdown = bd,
                         score_interpretation = interpret_score final,
                         component_results = component_scores\<rparr>)))"

definition final_sum :: "(pystr \<times> pyval) list \<Rightarrow> (pystr \<times> rat) list \<Rightarrow> py_error + rat" where
  \<comment> \<open>the local variable \<open>final_score\<close> of \<open>_calculate_final_score\<close>, before rounding\<close>
  "final_sum component_scores ws =
     (case extract_scores component_scores ws of
        Inl e \<Rightarrow> Inl e
      | Inr scores \<Rightarrow> weighted_sum scores ws)"


subsection \<open>Concrete component results\<close>

text \<open>
  \<open>boundary_scores\<close>: the scores 9, 8, 7, 6, 5 under both naming conventions.
  \<open>mixed_scores\<close>: a string score, an error record, a \<open>nan\<close>, an absent dimension and a
  record without any score field. \<open>tie_scores\<close>: a weighted sum of exactly 0.25.
\<close>

definition boundary_scores :: "(pystr \<times> pyval) list" where
  "boundary_scores =
     [(py ''ratings'', PDict [(py ''ratings_score'', PInt 9)]),
      (py ''business_legitimacy'', PDict [(py ''business_legitimacy_score'', PFloat (Fin 8))]),
      (py ''review_sentiment'', PDict [(py ''review_sentiment_score'', PFloat (Fin 7))]),
      (py ''social_media'', PDict [(py ''score'', PFloat (Fin 6))]),
      (py ''customer_support'', PDict [(py ''score'', PInt 5)])]"



section \<open>The structured extractor\<close>

subsection \<open>\<open>json.loads\<close>\<close>

text \<open>
  The standard decoder on a \<open>str\<close>, with its default settings, as the C scanner of
  CPython reads a document. Two settings of the interpreter decide how it fails on
  extreme input and are parameters: the nesting depth at which entering one more array
  or object raises \<open>RecursionError\<close>, and the digit limit of \<open>int\<close> conversions
  (\<open>0\<close> for no limit), beyond which an integer literal raises \<open>ValueError\<close>.
  Every other failure is \<open>JSONDecodeError\<close>.
\<close>

record limits =
  recursion_limit :: nat
  max_str_digits :: nat

definition json_ws :: "nat \<Rightarrow> bool" where
  "json_ws c \<longleftrightarrow> c = 32 \<or> c = 9 \<or> c = 10 \<or> c = 13"

definition skip_ws :: "pystr \<Rightarrow> pystr" where
  "skip_ws s = dropWhile json_ws s"

fun dict_set :: "(pystr \<times> 'a) list \<Rightarrow> pystr \<Rightarrow> 'a \<Rightarrow> (pystr \<times> 'a) list" where
  \<comment> \<open>\<open>d[k] = v\<close>: a key already present keeps its place\<close>
  "dict_set [] k v = [(k, v)]"
| "dict_set ((k', v') # d) k v =
     (if k' = k then (k, v) # d else (k', v') # dict_set d k v)"

definition hex_val :: "nat \<Rightarrow> nat option" where
  "hex_val c =
     (if 48 \<le> c \<and> c \<le> 57 then Some (c - 48)
      else if 97 \<le> c \<and> c \<le> 102 then Some (c - 87)
      else if 65 \<le> c \<and> c \<le> 70 then Some (c - 55)
      else None)"

definition hex4 :: "pystr \<Rightarrow> nat option" where
  \<comment> \<open>the value of the four hexadecimal digits at the head of the string\<close>
  "hex4 s =
     (case s of
        a # b # c # d # r \<Rightarrow>
          (case (hex_val a, hex_val b, hex_val c, hex_val d) of
             (Some x, Some y, Some z, Some w) \<Rightarrow> Some (((x * 16 + y) * 16 + z) * 16 + w)
           | _ \<Rightarrow> None)
      | _ \<Rightarrow> None)"

definition esc_char :: "nat \<Rightarrow> nat option" where
  \<comment> \<open>the character a one-letter escape stands for\<close>
  "esc_char e =
     (if e = 34 \<or> e = 92 \<or> e = 47 then Some e
      else if e = 98 then Some 8
      else if e = 102 then Some 12
      else if e = 110 then Some 10
      else if e = 114 then Some 13
      else if e = 116 then Some 9
      else None)"

definition is_high_surrogate :: "nat \<Rightarrow> bool" where
  "is_high_surrogate c \<longleftrightarrow> 55296 \<le> c \<and> c \<le> 56319"

definition is_low_surrogate :: "nat \<Rightarrow> bool" where
  "is_low_surrogate c \<longleftrightarrow> 56320 \<le> c \<and> c \<le> 57343"

definition join_surrogates :: "nat \<Rightarrow> nat \<Rightarrow> nat" where
  "join_surrogates hi lo = 65536 + ((hi - 55296) * 1024 + (lo - 56320))"

definition cons_char ::
  "nat \<Rightarrow> py_error + pystr \<times> pystr \<Rightarrow> py_error + pystr \<times> pystr" where
  "cons_char c res = (case res of Inl e \<Rightarrow> Inl e | Inr (s, rest) \<Rightarrow> Inr (c # s, rest))"

function scanstring :: "pystr \<Rightarrow> py_error + pystr \<times> pystr" where
  \<comment> \<open>the string whose opening quote has been read, and what follows its closing quote\<close>
  "scanstring [] = Inl JSONDecodeError"
| "scanstring (c # cs) =
     (if c = 34 then Inr ([], cs)
      else if c = 92 then
        (case cs of
           [] \<Rightarrow> Inl JSONDecodeError
         | e # r \<Rightarrow>
             if e = 117 then
               (case hex4 r of
                  None \<Rightarrow> Inl JSONDecodeError
                | Some n \<Rightarrow>
                    if drop 4 r = [] then Inl JSONDecodeError
                    else if is_high_surrogate n \<and> 6 < length (drop 4 r)
                            \<and> starts_with (drop 4 r) [92, 117] then
                      (case hex4 (drop 6 r) of
                         None \<Rightarrow> Inl JSONDecodeError
                       | Some m \<Rightarrow>
                           if is_low_surrogate m
                           then cons_char (join_surrogates n m) (scanstring (drop 10 r))
                           else cons_char n (scanstring (drop 4 r)))
                    else cons_char n (scanstring (drop 4 r)))
             else
               (case esc_char e of
                  None \<Rightarrow> Inl JSONDecodeError
                | Some x \<Rightarrow> cons_char x (scanstring r)))
      else if c \<le> 31 then Inl JSONDecodeError
      else cons_char c (scanstring cs))"
  by pat_completeness auto
termination
  by (relation "measure length") auto

definition digits_val :: "pystr \<Rightarrow> nat" where
  "digits_val ds = foldl (\<lambda>v c. 10 * v + (c - 48)) 0 ds"

definition match_number :: "nat \<Rightarrow> pystr \<Rightarrow> py_error + pyval \<times> pystr" where
  \<comment> \<open>\<open>-?(0|[1-9][0-9]*)(\.[0-9]+)?([eE][-+]?[0-9]+)?\<close>: an \<open>int\<close> without fraction and
      exponent, a \<open>float\<close> otherwise\<close>
  "match_number maxd s =
     (let (neg, r) = (case s of [] \<Rightarrow> (False, s) | c # t \<Rightarrow> if c = 45 then (True, t) else (False, s));
          ip = (case r of
                  [] \<Rightarrow> []
                | c # t \<Rightarrow> if c = 48 then [c] else if is_digit c then takeWhile is_digit r else []);
          r1 = drop (length ip) r;
          fp = (case r1 of
                  c # d # t \<Rightarrow> if c = 46 \<and> is_digit d then takeWhile is_digit (d # t) else []
                | _ \<Rightarrow> []);
          r2 = (if fp = [] then r1 else drop (Suc (length fp)) r1);
          (eneg, ed) = (case r2 of
                  [] \<Rightarrow> (False, [])
                | c # t \<Rightarrow>
                    if c = 101 \<or> c = 69 then
                      (case t of
                         [] \<Rightarrow> (False, [])
                       | x # u \<Rightarrow> if x = 45 then (True, takeWhile is_digit u)
                                  else if x = 43 then (False, takeWhile is_digit u)
                                  else (False, takeWhile is_digit t))
                    else (False, []));
          elen = (if ed = [] then 0
                  else length ed + (case r2 of
                                      c # x # u \<Rightarrow> if x = 45 \<or> x = 43 then 2 else 1
                                    | _ \<Rightarrow> 1));
          r3 = drop elen r2
      in if ip = [] then Inl JSONDecodeError
         else if fp = [] \<and> ed = [] then
           (if 0 < maxd \<and> maxd < length ip then Inl ValueError
            else Inr (PInt (if neg then - int (digits_val ip) else int (digits_val ip)), r3))
         else
           (let m = (of_nat (digits_val ip) + of_nat (digits_val fp) / 10 ^ length fp)
                    * pow10 (if eneg then - int (digits_val ed) else int (digits_val ed))
            in Inr (PFloat (mk_float (if neg then - m else m)), r3)))"

fun scan_once :: "nat \<Rightarrow> nat \<Rightarrow> nat \<Rightarrow> pystr \<Rightarrow> py_error + pyval \<times> pystr"
  and parse_object :: "nat \<Rightarrow> nat \<Rightarrow> nat \<Rightarrow> pydict \<Rightarrow> pystr \<Rightarrow> py_error + pyval \<times> pystr"
  and parse_array :: "nat \<Rightarrow> nat \<Rightarrow> nat \<Rightarrow> pyval list \<Rightarrow> pystr \<Rightarrow> py_error + pyval \<times> pystr"
where
  \<comment> \<open>\<open>scan_once maxd depth steps s\<close> reads one value at the head of \<open>s\<close>. \<open>depth\<close> is the
      number of arrays and objects that may still be entered. \<open>steps\<close> bounds the number
      of nested calls and only makes the recursion structural: every value and every turn
      of a loop takes at least one character of its own, so twice the length of the
      document is enough.\<close>
  "scan_once maxd depth 0 s = Inl JSONDecodeError"
| "scan_once maxd depth (Suc k) s =
     (case s of
        [] \<Rightarrow> Inl JSONDecodeError
      | c # r \<Rightarrow>
          if c = 34 then
            (case scanstring r of Inl e \<Rightarrow> Inl e | Inr (str, rest) \<Rightarrow> Inr (PStr str, rest))
          else if c = 123 then
            (if depth = 0 then Inl RecursionError
             else if starts_with (skip_ws r) [125] then Inr (PDict [], drop 1 (skip_ws r))
             else parse_object maxd (depth - 1) k [] (skip_ws r))
          else if c = 91 then
            (if depth = 0 then Inl RecursionError
             else if starts_with (skip_ws r) [93] then Inr (PList [], drop 1 (skip_ws r))
             else parse_array maxd (depth - 1) k [] (skip_ws r))
          else if starts_with s (py ''null'') then Inr (PNone, drop 4 s)
          else if starts_with s (py ''true'') then Inr (PBool True, drop 4 s)
          else if starts_with s (py ''false'') then Inr (PBool False, drop 5 s)
          else if starts_with s (py ''NaN'') then Inr (PFloat NaN, drop 3 s)
          else if starts_with s (py ''Infinity'') then Inr (PFloat PosInf, drop 8 s)
          else if starts_with s (py ''-Infinity'') then Inr (PFloat NegInf, drop 9 s)
          else match_number maxd s)"
| "parse_object maxd depth 0 acc s = Inl JSONDecodeError"
| "parse_object maxd depth (Suc k) acc s =
     (case s of
        [] \<Rightarrow> Inl JSONDecodeError
      | c # r \<Rightarrow>
          if c \<noteq> 34 then Inl JSONDecodeError
          else
            (case scanstring r of
               Inl e \<Rightarrow> Inl e
             | Inr (key, r1) \<Rightarrow>
                 if \<not> starts_with (skip_ws r1) [58] then Inl JSONDecodeError
                 else
                   (case scan_once maxd depth k (skip_ws (drop 1 (skip_ws r1))) of
                      Inl e \<Rightarrow> Inl e
                    | Inr (v, r2) \<Rightarrow>
                        if starts_with (skip_ws r2) [125]
                        then Inr (PDict (dict_set acc key v), drop 1 (skip_ws r2))
                        else if \<not> starts_with (skip_ws r2) [44] then Inl JSONDecodeError
                        else parse_object maxd depth k (dict_set acc key v)
                               (skip_ws (drop 1 (skip_ws r2))))))"
| "parse_array maxd depth 0 acc s = Inl JSONDecodeError"
| "parse_array maxd depth (Suc k) acc s =
     (case scan_once maxd depth k s of
        Inl e \<Rightarrow> Inl e
      | Inr (v, r2) \<Rightarrow>
          if starts_with (skip_ws r2) [93]
          then Inr (PList (acc @ [v]), drop 1 (skip_ws r2))
          else if \<not> starts_with (skip_ws r2) [44] then Inl JSONDecodeError
          else parse_array maxd depth k (acc @ [v]) (skip_ws (drop 1 (skip_ws r2))))"

definition json_loads :: "limits \<Rightarrow> pystr \<Rightarrow> py_error + pyval" where
  \<comment> \<open>a byte order mark is refused; white space may surround the one value\<close>
  "json_loads lims s =
     (if starts_with s [65279] then Inl JSONDecodeError
      else
        (case scan_once (max_str_digits lims) (recursion_limit lims) (Suc (length s + length s))
                (skip_ws s) of
           Inl e \<Rightarrow> Inl e
         | Inr (v, rest) \<Rightarrow> if skip_ws rest = [] then Inr v else Inl JSONDecodeError))"

subsection \<open>The regular expressions\<close>

text \<open>
  The four patterns of \<open>_call_component_analyzer\<close> are sequences of one-character items,
  greedy and lazy stars over one character class, and one capture group. The matcher is
  a backtracking matcher with Python's priorities: a greedy star takes one more character
  first, a lazy star tries what follows first. \<open>re.DOTALL\<close> is set, so \<open>.\<close> is any
  character.
\<close>

datatype cls = Chr nat | AnyChar | Space | NoneOf "nat list"

fun cls_match :: "cls \<Rightarrow> nat \<Rightarrow> bool" where
  "cls_match (Chr c) x = (x = c)"
| "cls_match AnyChar x = True"
| "cls_match Space x = is_space x"
| "cls_match (NoneOf cs) x = (x \<notin> set cs)"

datatype item = One cls | Star cls | Lazy cls | GroupOpen | GroupClose

definition keep :: "bool \<Rightarrow> nat \<Rightarrow> pystr \<times> pystr \<Rightarrow> pystr \<times> pystr" where
  \<comment> \<open>a matched character belongs to the captured text when the group is open\<close>
  "keep g x m = (if g then (x # fst m, snd m) else m)"

fun rmatch :: "bool \<Rightarrow> item list \<Rightarrow> pystr \<Rightarrow> (pystr \<times> pystr) option" where
  \<comment> \<open>a match of the items at the head of the text: the captured text and the rest\<close>
  "rmatch g [] s = Some ([], s)"
| "rmatch g (GroupOpen # r) s = rmatch True r s"
| "rmatch g (GroupClose # r) s = rmatch False r s"
| "rmatch g (One c # r) [] = None"
| "rmatch g (One c # r) (x # xs) =
     (if cls_match c x then map_option (keep g x) (rmatch g r xs) else None)"
| "rmatch g (Star c # r) [] = rmatch g r []"
| "rmatch g (Star c # r) (x # xs) =
     (if cls_match c x then
        (case rmatch g (Star c # r) xs of
           Some m \<Rightarrow> Some (keep g x m)
         | None \<Rightarrow> rmatch g r (x # xs))
      else rmatch g r (x # xs))"
| "rmatch g (Lazy c # r) [] = rmatch g r []"
| "rmatch g (Lazy c # r) (x # xs) =
     (case rmatch g r (x # xs) of
        Some m \<Rightarrow> Some m
      | None \<Rightarrow>
          if cls_match c x then map_option (keep g x) (rmatch g (Lazy c # r) xs) else None)"

function findall :: "item list \<Rightarrow> pystr \<Rightarrow> pystr list" where
  \<comment> \<open>\<open>re.findall\<close> for a pattern with one group: the captured texts of the leftmost
      matches that do not overlap\<close>
  "findall p [] = (case rmatch False p [] of None \<Rightarrow> [] | Some m \<Rightarrow> [fst m])"
| "findall p (x # xs) =
     (case rmatch False p (x # xs) of
        None \<Rightarrow> findall p xs
      | Some m \<Rightarrow>
          if length (snd m) \<le> length xs then fst m # findall p (snd m)
          else fst m # findall p xs)"
  by pat_completeness auto
termination
  by (relation "measure (\<lambda>(p, s). length s)") auto

definition lits :: "string \<Rightarrow> item list" where
  "lits s = map (\<lambda>c. One (Chr (of_char c))) s"

definition fenced_group :: "item list" where
  \<comment> \<open>\<open>\s*(\{.*?\})\s*```\<close>\<close>
  "fenced_group =
     [Star Space, GroupOpen, One (Chr 123), Lazy AnyChar, One (Chr 125), GroupClose, Star Space]
     @ lits ''```''"

definition json_patterns :: "item list list" where
  "json_patterns =
     [lits ''```json'' @ fenced_group,
      lits ''```'' @ fenced_group,
      [GroupOpen, One (Chr 123), Star (NoneOf [123, 125]), One (Chr 34), Star (NoneOf [34]),
       One (Chr 34), Star (NoneOf [123, 125]), One (Chr 58), Star (NoneOf [123, 125]),
       One (Chr 125), GroupClose],
      [GroupOpen, One (Chr 123), Star AnyChar, One (Chr 125), GroupClose]]"

subsection \<open>\<open>_call_component_analyzer\<close>\<close>

fun truthy :: "pyval \<Rightarrow> bool" where
  "truthy PNone = False"
| "truthy (PBool b) = b"
| "truthy (PInt i) = (i \<noteq> 0)"
| "truthy (PFloat f) = (f \<noteq> Fin 0)"
| "truthy (PStr s) = (s \<noteq> [])"
| "truthy (PList xs) = (xs \<noteq> [])"
| "truthy (PDict d) = (d \<noteq> [])"

definition repair :: "pystr \<Rightarrow> pystr" where
  \<comment> \<open>the closing braces, then the closing brackets, that the counts say are missing\<close>
  "repair m =
     (let fixed_json =
            (if count_list m 125 < count_list m 123
             then m @ replicate (count_list m 123 - count_list m 125) 125 else m)
      in if count_list fixed_json 93 < count_list fixed_json 91
         then fixed_json @ replicate (count_list fixed_json 91 - count_list fixed_json 93) 93
         else fixed_json)"

fun try_matches :: "limits \<Rightarrow> pystr list \<Rightarrow> pyval \<Rightarrow> py_error + pyval" where
  \<comment> \<open>the inner loop: \<open>parsed_result\<close> after it, or the exception that is not a
      \<open>JSONDecodeError\<close> and leaves the loops\<close>
  "try_matches lims [] parsed_result = Inr parsed_result"
| "try_matches lims (m # ms) parsed_result =
     (case json_loads lims m of
        Inr v \<Rightarrow> Inr v
      | Inl e \<Rightarrow>
          if e \<noteq> JSONDecodeError then Inl e
          else
            (case json_loads lims (repair m) of
               Inr v \<Rightarrow> Inr v
             | Inl e' \<Rightarrow>
                 if e' \<noteq> JSONDecodeError then Inl e'
                 else try_matches lims ms parsed_result))"

fun try_patterns :: "limits \<Rightarrow> item list list \<Rightarrow> pystr \<Rightarrow> pyval \<Rightarrow> py_error + pyval" where
  \<comment> \<open>the outer loop over the patterns, left at the first truthy \<open>parsed_result\<close>\<close>
  "try_patterns lims [] response_text parsed_result = Inr parsed_result"
| "try_patterns lims (p # ps) response_text parsed_result =
     (case try_matches lims (findall p response_text) parsed_result of
        Inl e \<Rightarrow> Inl e
      | Inr v \<Rightarrow> if truthy v then Inr v else try_patterns lims ps response_text v)"

definition fallback_scoring :: "pyval \<Rightarrow> pyval" where
  "fallback_scoring data =
     PDict [(py ''score'', PFloat (Fin 6)),
            (py ''confidence_level'', PStr (py ''Low'')),
            (py ''key_factors'', PList [PStr (py ''Fallback scoring due to API unavailability'')]),
            (py ''method'', PStr (py ''fallback''))]"

text \<open>
  The reasoning service is external. What it answers to the one request of a call is a
  parameter of the call: \<open>None\<close> when no model is configured (\<open>self.model\<close> is \<open>None\<close>),
  otherwise the reply. \<open>Raises\<close> is any exception between building the request and reading
  \<open>response.text\<close>, \<open>NoResponse\<close> a falsy response object, \<open>Text t\<close> the text \<open>t\<close>. The request
  text itself (prompt and serialised data) is not modelled.
\<close>

datatype response = Raises | NoResponse | Text pystr

definition call_component_analyzer :: "limits \<Rightarrow> response option \<Rightarrow> pyval \<Rightarrow> pyval" where
  "call_component_analyzer lims reply data =
     (case reply of
        None \<Rightarrow> fallback_scoring data
      | Some Raises \<Rightarrow> fallback_scoring data
      | Some NoResponse \<Rightarrow> fallback_scoring data
      | Some (Text t) \<Rightarrow>
          if t = [] then fallback_scoring data
          else
            (case try_patterns lims json_patterns (strip t) PNone of
               Inl e \<Rightarrow> fallback_scoring data
             | Inr parsed_result \<Rightarrow>
                 if truthy parsed_result then parsed_result else fallback_scoring data))"

definition default_limits :: limits where
  \<comment> \<open>the limits of an interpreter started with its defaults\<close>
  "default_limits = \<lparr>recursion_limit = 1000, max_str_digits = 4300\<rparr>"


section \<open>The component analyzers\<close>

subsection \<open>Operations on collected data\<close>

fun py_get :: "pyval \<Rightarrow> pystr \<Rightarrow> pyval \<Rightarrow> py_error + pyval" where
  \<comment> \<open>\<open>v.get(k, default)\<close>: only a dict has the method\<close>
  "py_get (PDict d) k dflt = Inr (case map_of d k of None \<Rightarrow> dflt | Some v \<Rightarrow> v)"
| "py_get v k dflt = Inl AttributeError"

fun py_iter :: "pyval \<Rightarrow> py_error + pyval list" where
  \<comment> \<open>the values a \<open>for\<close> loop over \<open>v\<close> visits\<close>
  "py_iter (PList xs) = Inr xs"
| "py_iter (PDict d) = Inr (map (\<lambda>kv. PStr (fst kv)) d)"
| "py_iter (PStr s) = Inr (map (\<lambda>c. PStr [c]) s)"
| "py_iter v = Inl TypeError"

fun py_slice3 :: "pyval \<Rightarrow> py_error + pyval list" where
  \<comment> \<open>the values a loop over \<open>v[:3]\<close> visits; a dict cannot be sliced\<close>
  "py_slice3 (PList xs) = Inr (take 3 xs)"
| "py_slice3 (PStr s) = Inr (map (\<lambda>c. PStr [c]) (take 3 s))"
| "py_slice3 v = Inl TypeError"

fun long_text :: "pyval \<Rightarrow> py_error + bool" where
  \<comment> \<open>\<open>v and len(v.strip()) > 10\<close>: a truthy value that is not a string has no \<open>strip\<close>\<close>
  "long_text (PStr s) = Inr (s \<noteq> [] \<and> 10 < length (strip s))"
| "long_text v = (if truthy v then Inl AttributeError else Inr False)"

fun float_add :: "pyfloat \<Rightarrow> pyfloat \<Rightarrow> pyfloat" where
  "float_add (Fin a) (Fin b) = mk_float (a + b)"
| "float_add NaN y = NaN"
| "float_add x NaN = NaN"
| "float_add PosInf NegInf = NaN"
| "float_add NegInf PosInf = NaN"
| "float_add PosInf y = PosInf"
| "float_add NegInf y = NegInf"
| "float_add (Fin a) y = y"

fun as_number :: "pyval \<Rightarrow> (int + pyfloat) option" where
  "as_number (PBool b) = Some (Inl (if b then 1 else 0))"
| "as_number (PInt i) = Some (Inl i)"
| "as_number (PFloat f) = Some (Inr f)"
| "as_number v = None"

definition number_float :: "int + pyfloat \<Rightarrow> py_error + pyfloat" where
  "number_float n = (case n of Inl i \<Rightarrow> py_float (PInt i) | Inr f \<Rightarrow> Inr f)"

definition add_number :: "pyval \<Rightarrow> pyval \<Rightarrow> py_error + pyval" where
  \<comment> \<open>\<open>total + v\<close> for a number \<open>total\<close>: another number or \<open>TypeError\<close>\<close>
  "add_number tot v =
     (case (as_number tot, as_number v) of
        (Some (Inl i), Some (Inl j)) \<Rightarrow> Inr (PInt (i + j))
      | (Some x, Some y) \<Rightarrow>
          (case number_float x of
             Inl e \<Rightarrow> Inl e
           | Inr a \<Rightarrow>
               (case number_float y of
                  Inl e \<Rightarrow> Inl e
                | Inr b \<Rightarrow> Inr (PFloat (float_add a b))))
      | _ \<Rightarrow> Inl TypeError)"

definition divide_by_len :: "pyval \<Rightarrow> nat \<Rightarrow> py_error + pyval" where
  \<comment> \<open>\<open>total / n\<close> for a number \<open>total\<close> and a length \<open>n > 0\<close>\<close>
  "divide_by_len tot n =
     (case as_number tot of
        Some (Inl i) \<Rightarrow>
          if float_overflow \<le> \<bar>of_int i / of_nat n\<bar> then Inl OverflowError
          else Inr (PFloat (Fin (of_int i / of_nat n)))
      | Some (Inr (Fin q)) \<Rightarrow> Inr (PFloat (Fin (q / of_nat n)))
      | Some (Inr f) \<Rightarrow> Inr (PFloat f)
      | None \<Rightarrow> Inl TypeError)"

subsection \<open>\<open>_prepare_ratings_data\<close>, \<open>_prepare_support_data\<close>\<close>

definition add_product_rating :: "pyval \<Rightarrow> pyval \<times> pyval \<Rightarrow> py_error + pyval \<times> pyval" where
  \<comment> \<open>one turn of the loop over the products, on \<open>(total_reviews, total_rating)\<close>\<close>
  "add_product_rating product_data totals =
     (case product_data of
        PDict d \<Rightarrow>
          (case map_of d (py ''overall_rating'') of
             None \<Rightarrow> Inr totals
           | Some overall \<Rightarrow>
               if \<not> truthy overall then Inr totals
               else
                 (case py_in (py ''total_reviews'') overall of
                    Inl e \<Rightarrow> Inl e
                  | Inr False \<Rightarrow> Inr totals
                  | Inr True \<Rightarrow>
                      (case py_get overall (py ''total_reviews'') (PInt 0) of
                         Inl e \<Rightarrow> Inl e
                       | Inr n \<Rightarrow>
                           (case add_number (fst totals) n of
                              Inl e \<Rightarrow> Inl e
                            | Inr total_reviews \<Rightarrow>
                                (case py_in (py ''average_rating'') overall of
                                   Inl e \<Rightarrow> Inl e
                                 | Inr False \<Rightarrow> Inr (total_reviews, snd totals)
                                 | Inr True \<Rightarrow>
                                     (case py_get overall (py ''average_rating'') (PInt 0) of
                                        Inl e \<Rightarrow> Inl e
                                      | Inr r \<Rightarrow>
                                          (case add_number (snd totals) r of
                                             Inl e \<Rightarrow> Inl e
                                           | Inr total_rating \<Rightarrow>
                                               Inr (total_reviews, total_rating))))))))
      | _ \<Rightarrow> Inr totals)"

fun sum_ratings :: "pyval list \<Rightarrow> pyval \<times> pyval \<Rightarrow> py_error + pyval \<times> pyval" where
  "sum_ratings [] totals = Inr totals"
| "sum_ratings (product_data # rest) totals =
     (case add_product_rating product_data totals of
        Inl e \<Rightarrow> Inl e
      | Inr totals' \<Rightarrow> sum_ratings rest totals')"

definition prepare_ratings_data :: "pyval list \<Rightarrow> py_error + pyval" where
  "prepare_ratings_data google_reviews =
     (if google_reviews = [] then
        Inr (PDict [(py ''total_reviews'', PInt 0), (py ''average_rating'', PInt 0),
                    (py ''message'', PStr (py ''No Google reviews data available''))])
      else
        (case sum_ratings google_reviews (PInt 0, PInt 0) of
           Inl e \<Rightarrow> Inl e
         | Inr (total_reviews, total_rating) \<Rightarrow>
             (case divide_by_len total_rating (length google_reviews) of
                Inl e \<Rightarrow> Inl e
              | Inr average \<Rightarrow>
                  Inr (PDict [(py ''total_reviews'', total_reviews),
                              (py ''average_rating'', average),
                              (py ''products_analyzed'', PInt (int (length google_reviews)))]))))"

definition prepare_support_data :: "pyval list \<Rightarrow> pyval" where
  "prepare_support_data all_reviews =
     PDict [(py ''total_reviews_analyzed'', PInt (int (length all_reviews))),
            (py ''data_sources'', PList [PStr (py ''Google reviews''), PStr (py ''Reddit reviews'')]),
            (py ''message'', PStr (py ''Support mentions available for analysis''))]"

subsection \<open>The review texts of \<open>analyze_review_sentiment\<close>\<close>

definition review_text :: "pyval \<Rightarrow> pyval \<Rightarrow> pystr \<Rightarrow> pyval" where
  "review_text text rating source =
     PDict [(py ''text'', text), (py ''rating'', rating), (py ''source'', PStr source)]"

fun google_review_texts :: "pyval list \<Rightarrow> py_error + pyval list" where
  \<comment> \<open>the inner loop over the reviews of one product\<close>
  "google_review_texts [] = Inr []"
| "google_review_texts (review # rest) =
     (case review of
        PDict d \<Rightarrow>
          (let content = (case map_of d (py ''content'') of None \<Rightarrow> PStr [] | Some v \<Rightarrow> v);
               rating = (case map_of d (py ''rating'') of None \<Rightarrow> PInt 0 | Some v \<Rightarrow> v)
           in case long_text content of
                Inl e \<Rightarrow> Inl e
              | Inr keep_it \<Rightarrow>
                  (case google_review_texts rest of
                     Inl e \<Rightarrow> Inl e
                   | Inr ts \<Rightarrow>
                       Inr (if keep_it then review_text content rating (py ''Google'') # ts
                            else ts)))
      | _ \<Rightarrow> google_review_texts rest)"

fun google_texts :: "pyval list \<Rightarrow> py_error + pyval list" where
  \<comment> \<open>the loop over the products\<close>
  "google_texts [] = Inr []"
| "google_texts (product_data # rest) =
     (case product_data of
        PDict d \<Rightarrow>
          (case map_of d (py ''reviews'') of
             None \<Rightarrow> google_texts rest
           | Some reviews \<Rightarrow>
               (case py_iter reviews of
                  Inl e \<Rightarrow> Inl e
                | Inr rs \<Rightarrow>
                    (case google_review_texts rs of
                       Inl e \<Rightarrow> Inl e
                     | Inr ts \<Rightarrow>
                         (case google_texts rest of
                            Inl e \<Rightarrow> Inl e
                          | Inr ts' \<Rightarrow> Inr (ts @ ts')))))
      | _ \<Rightarrow> google_texts rest)"

fun comment_texts :: "pyval list \<Rightarrow> py_error + pyval list" where
  \<comment> \<open>the loop over the first three comments of a post\<close>
  "comment_texts [] = Inr []"
| "comment_texts (comment # rest) =
     (case py_get comment (py ''body'') (PStr []) of
        Inl e \<Rightarrow> Inl e
      | Inr comment_text \<Rightarrow>
          (case long_text comment_text of
             Inl e \<Rightarrow> Inl e
           | Inr keep_it \<Rightarrow>
               (case comment_texts rest of
                  Inl e \<Rightarrow> Inl e
                | Inr ts \<Rightarrow>
                    Inr (if keep_it
                         then review_text comment_text (PStr (py ''N/A'')) (py ''Reddit'') # ts
                         else ts))))"

fun reddit_texts :: "pyval list \<Rightarrow> py_error + pyval list" where
  \<comment> \<open>the loop over the posts\<close>
  "reddit_texts [] = Inr []"
| "reddit_texts (reddit_post # rest) =
     (case reddit_post of
        PDict d \<Rightarrow>
          (let post_text = (case map_of d (py ''post_text'') of None \<Rightarrow> PStr [] | Some v \<Rightarrow> v);
               comments = (case map_of d (py ''comments'') of None \<Rightarrow> PList [] | Some v \<Rightarrow> v)
           in case long_text post_text of
                Inl e \<Rightarrow> Inl e
              | Inr keep_it \<Rightarrow>
                  (case py_slice3 comments of
                     Inl e \<Rightarrow> Inl e
                   | Inr cs \<Rightarrow>
                       (case comment_texts cs of
                          Inl e \<Rightarrow> Inl e
                        | Inr ts \<Rightarrow>
                            (case reddit_texts rest of
                               Inl e \<Rightarrow> Inl e
                             | Inr ts' \<Rightarrow>
                                 Inr ((if keep_it
                                       then [review_text post_text (PStr (py ''N/A'')) (py ''Reddit'')]
                                       else []) @ ts @ ts')))))
      | _ \<Rightarrow> reddit_texts rest)"

definition all_review_texts :: "pyval list \<Rightarrow> pyval list \<Rightarrow> py_error + pyval list" where
  "all_review_texts google_reviews reddit_reviews =
     (case google_texts google_reviews of
        Inl e \<Rightarrow> Inl e
      | Inr gs \<Rightarrow>
          (case reddit_texts reddit_reviews of
             Inl e \<Rightarrow> Inl e
           | Inr rs \<Rightarrow> Inr (gs @ rs)))"

subsection \<open>The five analyses\<close>

text \<open>
  The scorer object holds the model, or \<open>None\<close> when no key is configured. The model is
  given by its reply to the request of each dimension (see \<open>call_component_analyzer\<close>).
  The limits of the decoder belong to the interpreter and travel with the scorer here.
\<close>

record scorer =
  model :: "(pystr \<Rightarrow> response) option"
  decoder_limits :: limits

definition reply_for :: "scorer \<Rightarrow> pystr \<Rightarrow> response option" where
  "reply_for self dimension = (case model self of None \<Rightarrow> None | Some service \<Rightarrow> Some (service dimension))"

definition analyze_ratings :: "scorer \<Rightarrow> pyval list \<Rightarrow> py_error + pyval" where
  "analyze_ratings self google_reviews =
     (case prepare_ratings_data google_reviews of
        Inl e \<Rightarrow> Inl e
      | Inr ratings_data \<Rightarrow>
          Inr (call_component_analyzer (decoder_limits self) (reply_for self (py ''ratings''))
                 ratings_data))"

definition analyze_business_legitimacy :: "scorer \<Rightarrow> pyval \<Rightarrow> pyval" where
  "analyze_business_legitimacy self website_trust_data =
     call_component_analyzer (decoder_limits self) (reply_for self (py ''business_legitimacy''))
       website_trust_data"

definition no_review_default :: pyval where
  \<comment> \<open>the record returned when no review text was extracted\<close>
  "no_review_default =
     PDict [(py ''review_sentiment_score'', PFloat (Fin 5)),
            (py ''confidence_level'', PStr (py ''Low'')),
            (py ''key_factors'', PList [PStr (py ''No review text available for sentiment analysis'')]),
            (py ''analysis_summary'',
             PDict [(py ''total_reviews_analyzed'', PInt 0),
                    (py ''sentiment_distribution'', PStr (py ''No reviews available'')),
                    (py ''major_themes'', PDict [(py ''positive'', PList []), (py ''negative'', PList [])]),
                    (py ''product_consistency'', PStr (py ''No data'')),
                    (py ''severity_assessment'', PStr (py ''No reviews to assess''))])]"

definition analyze_review_sentiment :: "scorer \<Rightarrow> pyval list \<Rightarrow> pyval list \<Rightarrow> py_error + pyval" where
  \<comment> \<open>the \<open>try\<close> block returns the result only if it is truthy and has the key
      \<open>review_sentiment_score\<close>; otherwise, and on any exception, the function ends
      without a \<open>return\<close>, which gives \<open>None\<close>\<close>
  "analyze_review_sentiment self google_reviews reddit_reviews =
     (case all_review_texts google_reviews reddit_reviews of
        Inl e \<Rightarrow> Inl e
      | Inr texts \<Rightarrow>
          if texts = [] then Inr no_review_default
          else
            (let result = call_component_analyzer (decoder_limits self)
                            (reply_for self (py ''review_sentiment''))
                            (PDict [(py ''total_reviews'', PInt (int (length texts))),
                                    (py ''reviews_analyzed'', PInt (int (length texts)))])
             in if truthy result \<and> py_in (py ''review_sentiment_score'') result = Inr True
                then Inr result
                else Inr PNone))"

definition analyze_social_media :: "scorer \<Rightarrow> pyval list \<Rightarrow> pyval" where
  "analyze_social_media self reddit_reviews =
     call_component_analyzer (decoder_limits self) (reply_for self (py ''social_media''))
       (PDict [(py ''reddit_reviews'', PList reddit_reviews),
               (py ''reddit_count'', PInt (int (length reddit_reviews)))])"

definition analyze_customer_support :: "scorer \<Rightarrow> pyval list \<Rightarrow> pyval list \<Rightarrow> pyval" where
  \<comment> \<open>the last of the three definitions of the method, which is the one in force\<close>
  "analyze_customer_support self google_reviews reddit_reviews =
     call_component_analyzer (decoder_limits self) (reply_for self (py ''customer_support''))
       (prepare_support_data (google_reviews @ reddit_reviews))"

subsection \<open>\<open>calculate_trust_score\<close>\<close>

record collected =
  google_reviews :: "pyval list"
  reddit_reviews :: "pyval list"
  website_trust_data :: pyval

definition calculate_trust_score :: "scorer \<Rightarrow> 'a collected_scheme \<Rightarrow> py_error + trust_score" where
  "calculate_trust_score self state =
     (case analyze_ratings self (google_reviews state) of
        Inl e \<Rightarrow> Inl e
      | Inr ratings \<Rightarrow>
          (let legitimacy = analyze_business_legitimacy self (website_trust_data state)
           in case analyze_review_sentiment self (google_reviews state) (reddit_reviews state) of
                Inl e \<Rightarrow> Inl e
              | Inr sentiment \<Rightarrow>
                  calculate_final_score
                    [(py ''ratings'', ratings),
                     (py ''business_legitimacy'', legitimacy),
                     (py ''review_sentiment'', sentiment),
                     (py ''social_media'', analyze_social_media self (reddit_reviews state)),
                     (py ''customer_support'',
                      analyze_customer_support self (google_reviews state) (reddit_reviews state))]
                    weights))"

section \<open>The orchestrator\<close>

text \<open>
  \<open>BrandAnalyzer\<close>: the four nodes and \<open>analyze_brand\<close>, which runs them in sequence.
  The state dictionary is a record; the keys that are absent until a node sets them are
  options. The messages of the error list are modelled by their kind, the text of the
  exception left out.
\<close>

datatype run_error =
    BrandNameRequired
  | TrustScoringFailed py_error
  | ReportGenerationFailed py_error

datatype trust_value =
    Scored trust_score
  | ScoringFailed py_error


record component_detail =
  detail_score :: pyval
  detail_confidence :: pyval
  detail_key_factors :: pyval
  detail_weight :: pystr

record summary =
  summary_brand_name :: "pystr option"
  overall_score :: rat
  recommendation :: pystr
  data_sources_analyzed :: "nat \<times> nat \<times> bool"
  component_scores :: "(pystr \<times> breakdown_entry) list"
  detailed_component_analysis :: "(pystr \<times> component_detail) list"
  key_strengths :: "(pystr \<times> rat \<times> pystr) list"
  areas_of_concern :: "(pystr \<times> rat \<times> pystr) list"
  data_collection_status :: "(pystr \<times> pystr) list"
  trust_score_details :: "trust_value option"
  trust_score_summary :: "trust_value option"

datatype report =
    FullReport summary
  | DegradedReport py_error "pystr option" "trust_value option"

record state = collected +
  brand_name :: "pystr option"
  twitter_handle :: "pystr option"
  website :: "pystr option"
  collection_status :: "(pystr \<times> pystr) list"
  errors :: "run_error list"
  trust_score :: "trust_value option"
  final_report :: "report option"








subsection \<open>\<open>ReportGenerator.generate_comprehensive_report\<close>\<close>










subsection \<open>\<open>generate_report_node\<close> and \<open>analyze_brand\<close>\<close>











section \<open>Concrete runs\<close>

text \<open>
  Inputs for the closed theorems below: one product with one review of more than ten
  characters; a scorer whose model answers every request with an empty text; the data of
  a run that collected nothing; an environment without a model (\<open>offline\<close>) and one with the
  silent model. \<open>fallback_results s\<close> is the map of component results in which the four
  analyses other than the review sentiment returned the fallback record.
\<close>

definition one_review :: "pyval list" where
  "one_review =
     [PDict [(py ''product_id'', PStr (py ''p1'')),
             (py ''overall_rating'', PDict [(py ''average_rating'', PFloat (Fin (9 / 2))),
                                            (py ''total_reviews'', PInt 12)]),
             (py ''reviews'', PList [PDict [(py ''content'', PStr (py ''Great shoes, very comfortable'')),
                                            (py ''rating'', PInt 5)]])]]"

definition silent_scorer :: scorer where
  "silent_scorer = \<lparr>model = Some (\<lambda>dimension. Text []), decoder_limits = default_limits\<rparr>"


definition one_review_data :: collected where
  "one_review_data = \<lparr>google_reviews = one_review, reddit_reviews = [], website_trust_data = PDict []\<rparr>"



definition fallback_results :: "pyval \<Rightarrow> (pystr \<times> pyval) list" where
  "fallback_results sentiment =
     [(py ''ratings'', fallback_scoring PNone),
      (py ''business_legitimacy'', fallback_scoring PNone),
      (py ''review_sentiment'', sentiment),
      (py ''social_media'', fallback_scoring PNone),
      (py ''customer_support'', fallback_scoring PNone)]"

section \<open>Properties of the aggregator\<close>

subsection \<open>Evaluation and auxiliary facts\<close>

lemma py_eq_iff [simp]: "py s = py t \<longleftrightarrow> s = t"
  by (simp add: py_def inj_map_eq_map inj_of_char)

lemma py_append [simp]: "py s @ py t = py (s @ t)"
  by (simp add: py_def)

lemma floor_numeral_div [simp]: "\<lfloor>numeral a / numeral b :: rat\<rfloor> = numeral a div numeral b"
  using floor_divide_of_int_eq [of "numeral a" "numeral b", where ?'a = rat] by simp

lemma float_overflow_large: "(2 :: rat) ^ 64 \<le> float_overflow"
proof -
  have "(2 :: rat) ^ 970 * 2 \<le> 2 ^ 970 * 2 ^ 54"
    by (intro mult_left_mono) simp_all
  then have "(2 :: rat) ^ 970 + 2 ^ 970 \<le> 2 ^ 1024"
    by (simp add: power_add [symmetric])
  moreover have "(2 :: rat) ^ 64 \<le> 2 ^ 970"
    by (rule power_increasing) simp_all
  ultimately show ?thesis
    by (simp add: float_overflow_def)
qed

lemma py_float_small_int:
  "\<bar>i\<bar> < 2 ^ 64 \<Longrightarrow> py_float (PInt i) = Inr (Fin (of_int i))"
proof -
  assume "\<bar>i\<bar> < 2 ^ 64"
  then have "\<bar>of_int i :: rat\<bar> < 2 ^ 64"
    by (metis of_int_abs of_int_less_numeral_power_cancel_iff)
  with float_overflow_large show ?thesis by simp
qed

lemma mk_float_small: "\<bar>q\<bar> < 2 ^ 64 \<Longrightarrow> mk_float q = Fin q"
  using float_overflow_large by (auto simp: mk_float_def)

lemmas score_eval =
  calculate_final_score_def final_sum_def get_result_def lookup_def clamped_float_def clamp_def
  component_score_def score_at_def
  py_round_def round_half_even_def interpret_score_def weights_def py_float_small_int Let_def
























subsection \<open>The claims about the aggregator\<close>

text \<open>
  Claim C1. With the weight table of the live \<open>calculate_trust_score\<close> and the component
  scores 9, 8, 7, 6, 5 (given under the dimension-named field or under \<open>score\<close>), the
  aggregator returns \<open>final_score = 8.0\<close> and the interpretation of the "Good" tier.
\<close>

theorem boundary_scenario:
  "map_sum id (\<lambda>t. (final_score t, score_interpretation t))
     (calculate_final_score boundary_scores weights)
   = Inr (8, py ''Good - Generally trustworthy'')"
  by (simp add: boundary_scores_def score_eval del: py_float.simps(3))

text \<open>
  Claim C2. Both weight tables written in the program map the same five dimensions to
  weights in \<open>(0, 1]\<close> and sum to 1, hence to 1 within \<open>10\<^sup>-\<^sup>6\<close>.
\<close>

theorem weight_tables_sum_to_one:
  "sum_list (map snd weights) = 1 \<and> sum_list (map snd weights_shadowed) = 1
   \<and> \<bar>sum_list (map snd weights) - 1\<bar> \<le> 1 / 10 ^ 6
   \<and> \<bar>sum_list (map snd weights_shadowed) - 1\<bar> \<le> 1 / 10 ^ 6
   \<and> list_all (\<lambda>w. 0 < w \<and> w \<le> 1) (map snd weights)
   \<and> list_all (\<lambda>w. 0 < w \<and> w \<le> 1) (map snd weights_shadowed)
   \<and> map fst weights = map fst weights_shadowed
   \<and> length weights = 5"
  by (simp add: weights_def weights_shadowed_def)








section \<open>Properties of the structured extractor\<close>

subsection \<open>Evaluation and auxiliary facts\<close>

lemma scan_once_numeral:
  "scan_once md d (numeral n) s = scan_once md d (Suc (pred_numeral n)) s"
  "parse_object md d (numeral n) acc s = parse_object md d (Suc (pred_numeral n)) acc s"
  "parse_array md d (numeral n) xs s = parse_array md d (Suc (pred_numeral n)) xs s"
  by (simp_all only: numeral_eq_Suc)

lemmas re_eval = json_patterns_def fenced_group_def lits_def py_def keep_def is_space_def

lemmas json_eval =
  json_loads_def scan_once_numeral skip_ws_def json_ws_def py_def default_limits_def
  match_number_def is_digit_def digits_val_def cons_char_def esc_char_def hex4_def hex_val_def
  repair_def Let_def


lemma loads_ab: "json_loads default_limits (py ''{\"a\":1,\"b\":2}'') = Inr (PDict [(py ''a'', PInt 1), (py ''b'', PInt 2)])"
  by (simp add: json_eval)

lemma repair_ab: "repair (py ''{\"a\":1,\"b\":2'') = py ''{\"a\":1,\"b\":2}''"
  by (simp add: repair_def py_def)

lemma map_keep_False [simp]: "map_option (keep False x) r = r"
  by (cases r) (simp_all add: keep_def)













lemma py_Nil_iff [simp]: "py s = [] \<longleftrightarrow> s = []"
  by (simp add: py_def)








lemma patterns_truncated:
  "try_patterns lims json_patterns (py ''{\"a\":1,\"b\":2'') PNone = Inr PNone"
  by (simp add: re_eval)

lemma strip_truncated: "strip (py ''{\"a\":1,\"b\":2'') = py ''{\"a\":1,\"b\":2''"
  by (simp add: strip_def py_def is_space_def)

subsection \<open>The claims about the extractor\<close>

text \<open>
  Claim C6 fails on the code. Each of the four patterns ends in a closing brace, so the
  text \<open>{"a":1,"b":2\<close>, which has none, gives no candidate span: the repair pass is never
  reached and the call returns the fallback record, for every setting of the decoder and
  every payload. The repair itself would have produced the record of the claim.
\<close>

theorem truncated_record_falls_back:
  "call_component_analyzer lims (Some (Text (py ''{\"a\":1,\"b\":2''))) data
     = fallback_scoring data
   \<and> json_loads default_limits (repair (py ''{\"a\":1,\"b\":2''))
       = Inr (PDict [(py ''a'', PInt 1), (py ''b'', PInt 2)])"
  by (simp add: call_component_analyzer_def strip_truncated patterns_truncated repair_ab loads_ab)




section \<open>Properties of the analyzers and of the orchestrator\<close>

subsection \<open>Auxiliary facts\<close>

lemma empty_reply_fallback:
  "call_component_analyzer lims None data = fallback_scoring PNone"
  "call_component_analyzer lims (Some Raises) data = fallback_scoring PNone"
  "call_component_analyzer lims (Some NoResponse) data = fallback_scoring PNone"
  "call_component_analyzer lims (Some (Text [])) data = fallback_scoring PNone"
  by (simp_all add: call_component_analyzer_def fallback_scoring_def)

lemma fallback_has_no_sentiment_key:
  "py_in (py ''review_sentiment_score'') (fallback_scoring data) = Inr False"
  by (simp add: fallback_scoring_def)





lemma none_sentiment_raises:
  "calculate_final_score (fallback_results PNone) weights = Inl TypeError"
  by (simp add: fallback_results_def fallback_scoring_def score_eval)

lemma long_review: "long_text (PStr (py ''Great shoes, very comfortable'')) = Inr True"
  by (simp add: strip_def py_def is_space_def)

lemma one_review_texts:
  "all_review_texts one_review [] =
     Inr [review_text (PStr (py ''Great shoes, very comfortable'')) (PInt 5) (py ''Google'')]"
  by (simp add: all_review_texts_def one_review_def long_review del: long_text.simps)

lemma one_review_ratings:
  "prepare_ratings_data one_review
     = Inr (PDict [(py ''total_reviews'', PInt 12),
                   (py ''average_rating'', PFloat (Fin (9 / 2))),
                   (py ''products_analyzed'', PInt 1)])"
  by (simp add: prepare_ratings_data_def one_review_def add_product_rating_def
      add_number_def divide_by_len_def number_float_def py_float_small_int mk_float_small
      del: py_float.simps(3))

lemma silent_reply: "reply_for silent_scorer c = Some (Text [])"
  by (simp add: reply_for_def silent_scorer_def)







subsection \<open>The claims about scoring and runs\<close>

text \<open>
  Claim C8 fails on the code. With one review text collected and a model that answers
  with an empty text, \<open>_call_component_analyzer\<close> returns the fallback record, which has
  no key \<open>review_sentiment_score\<close>; \<open>analyze_review_sentiment\<close> then reaches its end
  without a \<open>return\<close> and gives \<open>None\<close>, and the aggregation of the five results raises
  \<open>TypeError\<close> on it.
\<close>

theorem sentiment_analysis_returns_none:
  "analyze_review_sentiment silent_scorer one_review [] = Inr PNone
   \<and> calculate_trust_score silent_scorer one_review_data = Inl TypeError"
proof -
  have s: "analyze_review_sentiment silent_scorer one_review [] = Inr PNone"
    by (simp add: analyze_review_sentiment_def one_review_texts silent_reply empty_reply_fallback
        fallback_has_no_sentiment_key)
  have r: "analyze_ratings silent_scorer one_review = Inr (fallback_scoring PNone)"
    by (simp add: analyze_ratings_def one_review_ratings silent_reply empty_reply_fallback)
  have "calculate_trust_score silent_scorer one_review_data
          = calculate_final_score (fallback_results PNone) weights"
    using s r
    by (simp add: calculate_trust_score_def one_review_data_def fallback_results_def
        analyze_business_legitimacy_def analyze_social_media_def analyze_customer_support_def
        silent_reply empty_reply_fallback)
  with s show ?thesis
    by (simp add: none_sentiment_raises)
qed







end
